theory Spec2Isabelle
  imports Main "HOL-Library.Char_ord" "HOL-Library.List_Lexorder" "HOL-Library.Multiset"
begin

section \<open>Values shared by the whole model\<close>

text \<open>
  Hex payloads, addresses and signatures are JavaScript strings of the form
  \<open>0x...\<close>; they are modelled as \<^typ>\<open>string\<close>, one \<^typ>\<open>char\<close> per UTF-16
  code unit (only ASCII occurs in hex text). A JavaScript \<open>bigint\<close> is an \<^typ>\<open>int\<close>.
  Every \<open>throw\<close> of the source, and every failure of a collaborator it awaits,
  is a value \<open>Inl e\<close> of the result type.
\<close>

datatype error =
    Error string
  | TypeError string
  | SyntaxError string
  | SignTransactionNotSupportedBySafeSmartAccount
  | IntegerOutOfRangeError
  | BytesSizeMismatchError
  | Upstream string

type_synonym Hex = string
type_synonym Address = string

subsection \<open>Hex digits and the string primitives of the language\<close>

definition hexDigitValue :: "char \<Rightarrow> nat option" where
  "hexDigitValue c =
     map_of (zip ''0123456789abcdefABCDEF''
               [0, 1, 2, 3, 4, 5, 6, 7, 8, 9, 10, 11, 12, 13, 14, 15, 10, 11, 12, 13, 14, 15]) c"

definition isHexDigit :: "char \<Rightarrow> bool" where
  "isHexDigit c = (hexDigitValue c \<noteq> None)"

definition hexDigitChar :: "nat \<Rightarrow> char" where
  "hexDigitChar d = ''0123456789abcdef'' ! d"

text \<open>\<open>Number.prototype.toString(16)\<close> and \<open>BigInt.prototype.toString(16)\<close> on a
  non-negative integer: lower-case digits, no padding, no prefix.\<close>

fun toString16 :: "nat \<Rightarrow> string" where
  "toString16 n =
     (if n < 16 then [hexDigitChar n]
      else toString16 (n div 16) @ [hexDigitChar (n mod 16)])"

declare toString16.simps [simp del]

text \<open>The value of a run of hex digits read left to right (most significant first).\<close>

fun hexDigitsValue :: "nat \<Rightarrow> string \<Rightarrow> nat" where
  "hexDigitsValue acc [] = acc"
| "hexDigitsValue acc (c # cs) =
     hexDigitsValue (16 * acc + (case hexDigitValue c of Some d \<Rightarrow> d | None \<Rightarrow> 0)) cs"

text \<open>\<open>toLowerCase()\<close>, on the letters that occur in hex text and addresses: the
  ASCII capitals; every other character stays.\<close>

definition toLowerCaseChar :: "char \<Rightarrow> char" where
  "toLowerCaseChar c =
     (case map_of (zip ''ABCDEFGHIJKLMNOPQRSTUVWXYZ'' ''abcdefghijklmnopqrstuvwxyz'') c of
        Some l \<Rightarrow> l
      | None \<Rightarrow> c)"

definition toLowerCase :: "string \<Rightarrow> string" where
  "toLowerCase s = map toLowerCaseChar s"

text \<open>Tab, line feed, vertical tab, form feed, carriage return, space and no-break
  space: the white space of the language among the code units below 256.\<close>

definition isWhiteSpace :: "char \<Rightarrow> bool" where
  "isWhiteSpace c =
     (c \<in> set [CHR 0x09, CHR 0x0A, CHR 0x0B, CHR 0x0C, CHR 0x0D, CHR '' '', CHR 0xA0])"

text \<open>
  \<open>parseInt(s, 16)\<close>: leading white space is skipped, one sign is read, a prefix
  \<open>0x\<close> or \<open>0X\<close> is skipped, then the longest run of hex digits is read; no digit at
  all gives \<open>NaN\<close>, here \<open>None\<close>. JavaScript's \<open>-0\<close> is the integer \<open>0\<close> here: the
  caller below compares it with \<open>includes\<close> and adds to it, which do not tell them apart.
\<close>

definition parseInt16 :: "string \<Rightarrow> int option" where
  "parseInt16 s =
     (let t = dropWhile isWhiteSpace s;
          (sign, u) = (case t of
                         c # r \<Rightarrow> if c = CHR ''-'' then (- 1 :: int, r)
                                  else if c = CHR ''+'' then (1, r) else (1, t)
                       | [] \<Rightarrow> (1, t));
          w = (if take 2 u = ''0x'' \<or> take 2 u = ''0X'' then drop 2 u else u);
          ds = takeWhile isHexDigit w
      in if ds = [] then None else Some (sign * int (hexDigitsValue 0 ds)))"

text \<open>\<open>s.slice(-2)\<close> and \<open>s.slice(0, -2)\<close>: a string shorter than two code units
  gives itself and the empty string.\<close>

definition sliceLast2 :: "string \<Rightarrow> string" where
  "sliceLast2 s = drop (length s - 2) s"

definition sliceButLast2 :: "string \<Rightarrow> string" where
  "sliceButLast2 s = take (length s - 2) s"

section \<open>The signature normaliser\<close>

datatype signingMethod = eth_sign | eth_signTypedData

definition ETHEREUM_V_VALUES :: "int list" where
  "ETHEREUM_V_VALUES = [0, 1, 27, 28]"

definition MIN_VALID_V_VALUE_FOR_SAFE_ECDSA :: int where
  "MIN_VALID_V_VALUE_FOR_SAFE_ECDSA = 27"

definition adjustVInSignature :: "signingMethod \<Rightarrow> string \<Rightarrow> error + Hex" where
  "adjustVInSignature signingMethod signature =
     (case parseInt16 (sliceLast2 signature) of
        None \<Rightarrow> Inl (Error ''Invalid signature'')
      | Some signatureV \<Rightarrow>
          if signatureV \<notin> set ETHEREUM_V_VALUES then Inl (Error ''Invalid signature'')
          else
            let v1 = (if signingMethod = eth_sign
                      then (if signatureV < MIN_VALID_V_VALUE_FOR_SAFE_ECDSA
                            then signatureV + MIN_VALID_V_VALUE_FOR_SAFE_ECDSA
                            else signatureV) + 4
                      else signatureV);
                v2 = (if signingMethod = eth_signTypedData
                      then (if v1 < MIN_VALID_V_VALUE_FOR_SAFE_ECDSA
                            then v1 + MIN_VALID_V_VALUE_FOR_SAFE_ECDSA
                            else v1)
                      else v1)
            in Inr (sliceButLast2 signature @ toString16 (nat v2)))"

text \<open>The last byte of a hex string, when its last two characters are hex digits.\<close>

definition finalByte :: "string \<Rightarrow> nat option" where
  "finalByte s =
     (case sliceLast2 s of
        [a, b] \<Rightarrow> (case (hexDigitValue a, hexDigitValue b) of
                     (Some x, Some y) \<Rightarrow> Some (16 * x + y)
                   | _ \<Rightarrow> None)
      | _ \<Rightarrow> None)"

section \<open>The library boundary\<close>

text \<open>
  ABI encoding, hashing, CREATE2 and key handling come from the \<open>viem\<close> library, which
  is not part of this repository. They are parameters of the model, collected in one
  record; each may throw. Arguments of ABI calls and typed-data messages are values of
  \<open>AbiValue\<close>; an ABI function is its name with the list of its input types, in the
  order the source lists them.
\<close>

datatype AbiValue =
    VAddress Address
  | VUint int
  | VBytes Hex
  | VArray "AbiValue list"

record AbiFunction =
  functionName :: string
  inputs :: "string list"

text \<open>A typed-data field is the pair (type, name).\<close>

record TypedDataDomain =
  chainId :: nat
  verifyingContract :: Address

record TypedDataDefinition =
  domain :: TypedDataDomain
  types :: "(string \<times> (string \<times> string) list) list"
  primaryType :: string
  message :: "(string \<times> AbiValue) list"

datatype SignableMessage =
    MessageString string
  | MessageRaw Hex
  | MessageTypedData TypedDataDefinition

record LocalAccount =
  address :: Address
  signMessage_raw :: "Hex \<Rightarrow> error + Hex"
  signTypedData_owner :: "TypedDataDefinition \<Rightarrow> error + Hex"

record Viem =
  keccak256 :: "Hex \<Rightarrow> error + Hex"
  getContractAddress_CREATE2 :: "Address \<Rightarrow> Hex \<Rightarrow> Hex \<Rightarrow> error + Address"
  encodeFunctionData :: "AbiFunction \<Rightarrow> AbiValue list \<Rightarrow> error + Hex"
  hashMessage :: "SignableMessage \<Rightarrow> error + Hex"
  hashTypedData :: "TypedDataDefinition \<Rightarrow> error + Hex"
  privateKeyToAccount :: "Hex \<Rightarrow> error + LocalAccount"

definition andThen :: "error + 'a \<Rightarrow> ('a \<Rightarrow> error + 'b) \<Rightarrow> error + 'b" where
  "andThen r f = (case r of Inl e \<Rightarrow> Inl e | Inr x \<Rightarrow> f x)"

definition zeroAddress :: Address where
  "zeroAddress = ''0x0000000000000000000000000000000000000000''"

subsection \<open>Packed encoding\<close>

text \<open>
  \<open>x.replace("0x", "")\<close> removes the first occurrence of the two characters, wherever
  it is; \<open>concatHex\<close> applies it to every part and puts one prefix in front.
\<close>

fun replace0x :: "string \<Rightarrow> string" where
  "replace0x (a # b # r) = (if a = CHR ''0'' \<and> b = CHR ''x'' then r else a # replace0x (b # r))"
| "replace0x s = s"

definition concatHex :: "Hex list \<Rightarrow> Hex" where
  "concatHex values = ''0x'' @ concat (map replace0x values)"

definition padStart :: "nat \<Rightarrow> char \<Rightarrow> string \<Rightarrow> string" where
  "padStart n c s = replicate (n - length s) c @ s"

text \<open>
  \<open>numberToHex(value, {size: 32})\<close>, which \<open>encodePacked\<close> uses for \<open>uint256\<close>: a value
  outside \<open>0 .. 2^256 - 1\<close> throws, any other is written with 64 digits.
\<close>

definition numberToHex32 :: "int \<Rightarrow> error + Hex" where
  "numberToHex32 v =
     (if v > 2 ^ 256 - 1 \<or> v < 0 then Inl IntegerOutOfRangeError
      else Inr (''0x'' @ padStart 64 (CHR ''0'') (toString16 (nat v))))"

datatype PackedValue = PBytes Hex | PBytes32 Hex | PUint256 int

text \<open>
  \<open>encodePacked(types, values)\<close> for the three types the source passes: \<open>bytes\<close> is
  taken as it is, \<open>bytes32\<close> must be 32 bytes long, \<open>uint256\<close> is a 32-byte
  big-endian word; the parts are joined by \<open>concatHex\<close>.
\<close>

definition encodePacked_one :: "PackedValue \<Rightarrow> error + Hex" where
  "encodePacked_one pv =
     (case pv of
        PBytes h \<Rightarrow> Inr h
      | PBytes32 h \<Rightarrow> if length h = 66 then Inr h else Inl BytesSizeMismatchError
      | PUint256 v \<Rightarrow> numberToHex32 v)"

fun encodePacked_all :: "PackedValue list \<Rightarrow> error + Hex list" where
  "encodePacked_all [] = Inr []"
| "encodePacked_all (pv # pvs) =
     andThen (encodePacked_one pv) (\<lambda>h. andThen (encodePacked_all pvs) (\<lambda>hs. Inr (h # hs)))"

definition encodePacked :: "PackedValue list \<Rightarrow> error + Hex" where
  "encodePacked pvs = andThen (encodePacked_all pvs) (\<lambda>hs. Inr (concatHex hs))"

text \<open>
  \<open>hexToBigInt(hex)\<close> is \<open>BigInt(hex)\<close>. Its argument has the type
  \<open>Address\<close>, a string that starts with \<open>0x\<close>: trailing white space is dropped, and what
  remains after the prefix must be one hex digit or more, else \<open>BigInt\<close> throws a
  SyntaxError. A string without the prefix is outside that type and
  is given the same error here.
\<close>

definition trimEnd :: "string \<Rightarrow> string" where
  "trimEnd s = rev (dropWhile isWhiteSpace (rev s))"

definition hexToBigInt :: "Hex \<Rightarrow> error + int" where
  "hexToBigInt h =
     (let ds = trimEnd (drop 2 h)
      in if take 2 h = ''0x'' \<and> ds \<noteq> [] \<and> list_all isHexDigit ds
         then Inr (int (hexDigitsValue 0 ds))
         else Inl (SyntaxError ''Cannot convert to BigInt''))"

section \<open>The chain client\<close>

text \<open>
  Every awaited chain read is a request sent through the client. The client is modelled
  as the environment that answers (\<open>answer_*\<close>, which may depend on everything asked
  before, so that the chain can change between two reads) together with the list of the
  requests made so far. A read looks its answer up and appends itself to that list.
\<close>

datatype request =
    GetChainId
  | ReadProxyCreationCode Address
  | GetBytecode Address

record Client =
  answer_chainId :: "request list \<Rightarrow> error + nat"
  answer_proxyCreationCode :: "request list \<Rightarrow> Address \<Rightarrow> error + Hex"
  answer_bytecode :: "request list \<Rightarrow> Address \<Rightarrow> error + Hex option"
  requests :: "request list"

definition getChainId :: "Client \<Rightarrow> (error + nat) \<times> Client" where
  "getChainId client =
     (answer_chainId client (requests client),
      client\<lparr>requests := requests client @ [GetChainId]\<rparr>)"

definition readContract_proxyCreationCode :: "Client \<Rightarrow> Address \<Rightarrow> (error + Hex) \<times> Client" where
  "readContract_proxyCreationCode client a =
     (answer_proxyCreationCode client (requests client) a,
      client\<lparr>requests := requests client @ [ReadProxyCreationCode a]\<rparr>)"

definition getBytecode :: "Client \<Rightarrow> Address \<Rightarrow> (error + Hex option) \<times> Client" where
  "getBytecode client a =
     (answer_bytecode client (requests client) a,
      client\<lparr>requests := requests client @ [GetBytecode a]\<rparr>)"

section \<open>The Safe account\<close>

datatype SafeVersion = V_1_4_1

definition EIP712_SAFE_OPERATION_TYPE :: "(string \<times> (string \<times> string) list) list" where
  "EIP712_SAFE_OPERATION_TYPE =
     [(''SafeOp'',
       [(''address'', ''safe''),
        (''bytes'', ''callData''),
        (''uint256'', ''nonce''),
        (''uint256'', ''preVerificationGas''),
        (''uint256'', ''verificationGasLimit''),
        (''uint256'', ''callGasLimit''),
        (''uint256'', ''maxFeePerGas''),
        (''uint256'', ''maxPriorityFeePerGas''),
        (''address'', ''entryPoint'')])]"

record SafeAddresses =
  ADD_MODULES_LIB_ADDRESS :: Address
  SAFE_4337_MODULE_ADDRESS :: Address
  SAFE_PROXY_FACTORY_ADDRESS :: Address
  SAFE_SINGLETON_ADDRESS :: Address

definition SAFE_ADDRESSES_1_4_1 :: SafeAddresses where
  "SAFE_ADDRESSES_1_4_1 =
     \<lparr>ADD_MODULES_LIB_ADDRESS = ''0x191EFDC03615B575922289DC339F4c70aC5C30Af'',
      SAFE_4337_MODULE_ADDRESS = ''0x39E54Bb2b3Aa444b4B39DEe15De3b7809c36Fc38'',
      SAFE_PROXY_FACTORY_ADDRESS = ''0x4e1DCf7AD4e460CfD30791CCC4F9c8a4f820ec67'',
      SAFE_SINGLETON_ADDRESS = ''0x41675C099F32341bf84BFc5382aF534df5C7461a''\<rparr>"

text \<open>The table: for each version, a dictionary from the chain id written in decimal
  to the four addresses. Both chains of version 1.4.1 have the same entry.\<close>

definition SAFE_ADDRESSES_MAP :: "SafeVersion \<Rightarrow> (string \<rightharpoonup> SafeAddresses)" where
  "SAFE_ADDRESSES_MAP v =
     (case v of V_1_4_1 \<Rightarrow>
        [''11155111'' \<mapsto> SAFE_ADDRESSES_1_4_1, ''5'' \<mapsto> SAFE_ADDRESSES_1_4_1])"

text \<open>\<open>chainId.toString()\<close> of a non-negative integer: decimal digits (chain ids
  are far below the size from which a JavaScript number is printed with an exponent).\<close>

fun toString10 :: "nat \<Rightarrow> string" where
  "toString10 n =
     (if n < 10 then [hexDigitChar n]
      else toString10 (n div 10) @ [hexDigitChar (n mod 10)])"

declare toString10.simps [simp del]

definition generateSafeMessageMessage :: "Viem \<Rightarrow> SignableMessage \<Rightarrow> error + Hex" where
  "generateSafeMessageMessage lib m =
     (case m of
        MessageString s \<Rightarrow> hashMessage lib m
      | MessageRaw r \<Rightarrow> hashMessage lib m
      | MessageTypedData td \<Rightarrow> hashTypedData lib td)"

definition setup_abi :: AbiFunction where
  "setup_abi =
     \<lparr>functionName = ''setup'',
      inputs = [''address[]'', ''uint256'', ''address'', ''bytes'', ''address'', ''address'',
                ''uint256'', ''address'']\<rparr>"

definition enableModules_abi :: AbiFunction where
  "enableModules_abi = \<lparr>functionName = ''enableModules'', inputs = [''address[]'']\<rparr>"

definition createProxyWithNonce_abi :: AbiFunction where
  "createProxyWithNonce_abi =
     \<lparr>functionName = ''createProxyWithNonce'', inputs = [''address'', ''bytes'', ''uint256'']\<rparr>"

definition getInitializerCode :: "Viem \<Rightarrow> Address \<Rightarrow> Address \<Rightarrow> Address \<Rightarrow> error + Hex" where
  "getInitializerCode lib owner addModuleLibAddress safe4337ModuleAddress =
     andThen (encodeFunctionData lib enableModules_abi [VArray [VAddress safe4337ModuleAddress]])
       (\<lambda>enableModulesData.
          encodeFunctionData lib setup_abi
            [VArray [VAddress owner],
             VUint 1,
             VAddress addModuleLibAddress,
             VBytes enableModulesData,
             VAddress safe4337ModuleAddress,
             VAddress zeroAddress,
             VUint 0,
             VAddress zeroAddress])"

definition getAccountInitCode ::
  "Viem \<Rightarrow> Address \<Rightarrow> Address \<Rightarrow> Address \<Rightarrow> Address \<Rightarrow> Address \<Rightarrow> int \<Rightarrow> error + Hex" where
  "getAccountInitCode lib owner addModuleLibAddress safe4337ModuleAddress
       safeProxyFactoryAddress safeSingletonAddress saltNonce =
     (if owner = [] then Inl (Error ''Owner account not found'')
      else
        andThen (getInitializerCode lib owner addModuleLibAddress safe4337ModuleAddress)
          (\<lambda>initializer.
             andThen (encodeFunctionData lib createProxyWithNonce_abi
                        [VAddress safeSingletonAddress, VBytes initializer, VUint saltNonce])
               (\<lambda>initCodeCallData.
                  Inr (concatHex [safeProxyFactoryAddress, initCodeCallData]))))"

definition getAccountAddress ::
  "Viem \<Rightarrow> Client \<Rightarrow> Address \<Rightarrow> Address \<Rightarrow> Address \<Rightarrow> Address \<Rightarrow> Address \<Rightarrow> int
     \<Rightarrow> (error + Address) \<times> Client" where
  "getAccountAddress lib client owner addModuleLibAddress safe4337ModuleAddress
       safeProxyFactoryAddress safeSingletonAddress saltNonce =
     (let (read, client1) = readContract_proxyCreationCode client safeProxyFactoryAddress
      in (andThen read
            (\<lambda>proxyCreationCode.
               andThen (hexToBigInt safeSingletonAddress)
                 (\<lambda>singleton.
               andThen (encodePacked [PBytes proxyCreationCode, PUint256 singleton])
                 (\<lambda>deploymentCode.
               andThen (getInitializerCode lib owner addModuleLibAddress safe4337ModuleAddress)
                 (\<lambda>initializer.
               andThen (encodePacked [PBytes initializer])
                 (\<lambda>packedInitializer.
               andThen (keccak256 lib packedInitializer)
                 (\<lambda>initializerHash.
               andThen (encodePacked [PBytes32 initializerHash, PUint256 saltNonce])
                 (\<lambda>packedSalt.
               andThen (keccak256 lib packedSalt)
                 (\<lambda>salt.
                    getContractAddress_CREATE2 lib safeProxyFactoryAddress salt
                      deploymentCode)))))))),
          client1))"

subsection \<open>Construction\<close>

record SafeSmartAccountParameters =
  privateKey :: Hex
  safeVersion :: SafeVersion
  entryPoint :: Address
  addModuleLibAddress_override :: "Address option"
  safe4337ModuleAddress_override :: "Address option"
  safeProxyFactoryAddress_override :: "Address option"
  safeSingletonAddress_override :: "Address option"
  saltNonce_given :: "int option"

text \<open>What the methods of the returned account close over.\<close>

record SafeSmartAccount =
  privateKeyAccount :: LocalAccount
  accountChainId :: nat
  accountAddress :: Address
  accountEntryPoint :: Address
  addModuleLibAddress :: Address
  safe4337ModuleAddress :: Address
  safeProxyFactoryAddress :: Address
  safeSingletonAddress :: Address
  saltNonce :: int

text \<open>
  \<open>override ?? SAFE_ADDRESSES_MAP[safeVersion][chainIdString].FIELD\<close>: the table is read
  only when no override is given, and reading a field of a missing entry throws a
  TypeError, which carries the name of that field here.
\<close>

definition resolveAddress ::
  "Address option \<Rightarrow> SafeAddresses option \<Rightarrow> (SafeAddresses \<Rightarrow> Address) \<Rightarrow> string
     \<Rightarrow> error + Address" where
  "resolveAddress override entry field fieldName =
     (case override of
        Some a \<Rightarrow> Inr a
      | None \<Rightarrow> (case entry of
                   None \<Rightarrow> Inl (TypeError fieldName)
                 | Some e \<Rightarrow> Inr (field e)))"

definition privateKeyToSafeSmartAccount ::
  "Viem \<Rightarrow> Client \<Rightarrow> SafeSmartAccountParameters \<Rightarrow> (error + SafeSmartAccount) \<times> Client" where
  "privateKeyToSafeSmartAccount lib client params =
     (case privateKeyToAccount lib (privateKey params) of
        Inl e \<Rightarrow> (Inl e, client)
      | Inr pkAccount \<Rightarrow>
          let (chainRead, client1) = getChainId client
          in (case chainRead of
                Inl e \<Rightarrow> (Inl e, client1)
              | Inr cid \<Rightarrow>
                  let chainIdString = toString10 cid;
                      entry = SAFE_ADDRESSES_MAP (safeVersion params) chainIdString;
                      nonce0 = (case saltNonce_given params of None \<Rightarrow> 0 | Some n \<Rightarrow> n);
                      resolved =
                        andThen (resolveAddress (addModuleLibAddress_override params) entry
                                   ADD_MODULES_LIB_ADDRESS ''ADD_MODULES_LIB_ADDRESS'')
                          (\<lambda>a1.
                        andThen (resolveAddress (safe4337ModuleAddress_override params) entry
                                   SAFE_4337_MODULE_ADDRESS ''SAFE_4337_MODULE_ADDRESS'')
                          (\<lambda>a2.
                        andThen (resolveAddress (safeProxyFactoryAddress_override params) entry
                                   SAFE_PROXY_FACTORY_ADDRESS ''SAFE_PROXY_FACTORY_ADDRESS'')
                          (\<lambda>a3.
                        andThen (resolveAddress (safeSingletonAddress_override params) entry
                                   SAFE_SINGLETON_ADDRESS ''SAFE_SINGLETON_ADDRESS'')
                          (\<lambda>a4. Inr (a1, a2, a3, a4)))))
                  in (case resolved of
                        Inl e \<Rightarrow> (Inl e, client1)
                      | Inr (a1, a2, a3, a4) \<Rightarrow>
                          let (derived, client2) =
                                getAccountAddress lib client1 (address pkAccount) a1 a2 a3 a4 nonce0
                          in (andThen derived
                                (\<lambda>acc.
                                   if acc = [] then Inl (Error ''Account address not found'')
                                   else Inr \<lparr>privateKeyAccount = pkAccount,
                                             accountChainId = cid,
                                             accountAddress = acc,
                                             accountEntryPoint = entryPoint params,
                                             addModuleLibAddress = a1,
                                             safe4337ModuleAddress = a2,
                                             safeProxyFactoryAddress = a3,
                                             safeSingletonAddress = a4,
                                             saltNonce = nonce0\<rparr>),
                              client2))))"

subsection \<open>Signing\<close>

record UserOperation =
  sender :: Address
  nonce :: int
  initCode :: Hex
  callData :: Hex
  callGasLimit :: int
  verificationGasLimit :: int
  preVerificationGas :: int
  maxFeePerGas :: int
  maxPriorityFeePerGas :: int
  paymasterAndData :: Hex
  signature :: Hex

definition safeMessageTypedData :: "SafeSmartAccount \<Rightarrow> Hex \<Rightarrow> TypedDataDefinition" where
  "safeMessageTypedData acct h =
     \<lparr>domain = \<lparr>chainId = accountChainId acct, verifyingContract = accountAddress acct\<rparr>,
      types = [(''SafeMessage'', [(''bytes'', ''message'')])],
      primaryType = ''SafeMessage'',
      message = [(''message'', VBytes h)]\<rparr>"

text \<open>The hash handed to the owner's \<open>signMessage\<close> as raw bytes is kept as the hex
  string it is converted from.\<close>

definition signMessage :: "Viem \<Rightarrow> SafeSmartAccount \<Rightarrow> SignableMessage \<Rightarrow> error + Hex" where
  "signMessage lib acct m =
     andThen (generateSafeMessageMessage lib m)
       (\<lambda>h. andThen (hashTypedData lib (safeMessageTypedData acct h))
         (\<lambda>messageHash. andThen (signMessage_raw (privateKeyAccount acct) messageHash)
           (\<lambda>s. adjustVInSignature eth_sign s)))"

definition signTransaction :: "'a \<Rightarrow> 'b \<Rightarrow> error + Hex" where
  "signTransaction t a = Inl SignTransactionNotSupportedBySafeSmartAccount"

definition signTypedData :: "Viem \<Rightarrow> SafeSmartAccount \<Rightarrow> TypedDataDefinition \<Rightarrow> error + Hex" where
  "signTypedData lib acct typedData =
     andThen (generateSafeMessageMessage lib (MessageTypedData typedData))
       (\<lambda>h. andThen (signTypedData_owner (privateKeyAccount acct) (safeMessageTypedData acct h))
         (\<lambda>s. adjustVInSignature eth_signTypedData s))"

definition safeOpTypedData :: "SafeSmartAccount \<Rightarrow> UserOperation \<Rightarrow> TypedDataDefinition" where
  "safeOpTypedData acct userOperation =
     \<lparr>domain = \<lparr>chainId = accountChainId acct, verifyingContract = safe4337ModuleAddress acct\<rparr>,
      types = EIP712_SAFE_OPERATION_TYPE,
      primaryType = ''SafeOp'',
      message =
        [(''safe'', VAddress (accountAddress acct)),
         (''callData'', VBytes (callData userOperation)),
         (''nonce'', VUint (nonce userOperation)),
         (''preVerificationGas'', VUint (preVerificationGas userOperation)),
         (''verificationGasLimit'', VUint (verificationGasLimit userOperation)),
         (''callGasLimit'', VUint (callGasLimit userOperation)),
         (''maxFeePerGas'', VUint (maxFeePerGas userOperation)),
         (''maxPriorityFeePerGas'', VUint (maxPriorityFeePerGas userOperation)),
         (''entryPoint'', VAddress (accountEntryPoint acct))]\<rparr>"

record SignerSignature =
  signer :: Address
  data :: Hex

text \<open>
  \<open>a.localeCompare(b)\<close> is called without a locale, so the order is the collation of the
  host's default locale, which the source does not fix. It is a parameter,
  \<open>localeCompare\<close>, of everything that sorts: its value is negative, zero or positive as
  \<open>a\<close> sorts before, with or after \<open>b\<close>.
\<close>

definition compareSigners ::
  "(string \<Rightarrow> string \<Rightarrow> int) \<Rightarrow> SignerSignature \<Rightarrow> SignerSignature \<Rightarrow> int" where
  "compareSigners localeCompare left right =
     localeCompare (toLowerCase (signer left)) (toLowerCase (signer right))"

text \<open>
  \<open>Array.prototype.sort(compare)\<close> is a stable sort: elements that compare equal keep
  their order. For a comparison that is consistent, as a collation is, its result is the
  one computed here by insertion.
\<close>

fun insertBy :: "('a \<Rightarrow> 'a \<Rightarrow> int) \<Rightarrow> 'a \<Rightarrow> 'a list \<Rightarrow> 'a list" where
  "insertBy cmp x [] = [x]"
| "insertBy cmp x (y # ys) = (if cmp x y \<le> 0 then x # y # ys else y # insertBy cmp x ys)"

definition sortBy :: "('a \<Rightarrow> 'a \<Rightarrow> int) \<Rightarrow> 'a list \<Rightarrow> 'a list" where
  "sortBy cmp xs = foldr (insertBy cmp) xs []"

text \<open>The loop \<open>for (const sig of signatures) signatureBytes += sig.data.slice(2)\<close>,
  started from \<open>"0x"\<close>.\<close>

definition appendSignatures :: "SignerSignature list \<Rightarrow> Hex" where
  "appendSignatures sigs = foldl (\<lambda>signatureBytes s. signatureBytes @ drop 2 (data s)) ''0x'' sigs"

definition sortAndConcat :: "(string \<Rightarrow> string \<Rightarrow> int) \<Rightarrow> SignerSignature list \<Rightarrow> Hex" where
  "sortAndConcat localeCompare signatures =
     appendSignatures (sortBy (compareSigners localeCompare) signatures)"

definition signUserOperation ::
  "(string \<Rightarrow> string \<Rightarrow> int) \<Rightarrow> SafeSmartAccount \<Rightarrow> UserOperation \<Rightarrow> error + Hex" where
  "signUserOperation localeCompare acct userOperation =
     andThen (signTypedData_owner (privateKeyAccount acct) (safeOpTypedData acct userOperation))
       (\<lambda>d. Inr (sortAndConcat localeCompare
                    [\<lparr>signer = address (privateKeyAccount acct), data = d\<rparr>]))"

subsection \<open>Deployment payload\<close>

definition getInitCode :: "Viem \<Rightarrow> SafeSmartAccount \<Rightarrow> Client \<Rightarrow> (error + Hex) \<times> Client" where
  "getInitCode lib acct client =
     (let (read, client1) = getBytecode client (accountAddress acct)
      in (andThen read
            (\<lambda>contractCode.
               if (case contractCode of None \<Rightarrow> 0 | Some c \<Rightarrow> length c) > 2 then Inr ''0x''
               else getAccountInitCode lib (address (privateKeyAccount acct))
                      (addModuleLibAddress acct) (safe4337ModuleAddress acct)
                      (safeProxyFactoryAddress acct) (safeSingletonAddress acct)
                      (saltNonce acct)),
          client1))"

definition encodeDeployCallData :: "'a \<Rightarrow> error + Hex" where
  "encodeDeployCallData x = Inl (Error ''Safe account doesn't support account deployment'')"

definition executeUserOp_abi :: AbiFunction where
  "executeUserOp_abi =
     \<lparr>functionName = ''executeUserOp'', inputs = [''address'', ''uint256'', ''bytes'', ''uint8'']\<rparr>"

definition encodeCallData :: "Viem \<Rightarrow> Address \<Rightarrow> int \<Rightarrow> Hex \<Rightarrow> error + Hex" where
  "encodeCallData lib to val d =
     encodeFunctionData lib executeUserOp_abi [VAddress to, VUint val, VBytes d, VUint 0]"

definition getDummySignature :: Hex where
  "getDummySignature =
     ''0xfffffffffffffffffffffffffffffff0000000000000000000000000000000007aaaaaaaaaaaaaaaaaaaaaaaaaaaaaaaaaaaaaaaaaaaaaaaaaaaaaaaaaaaaaaa1c''"

section \<open>The gas-estimation error\<close>

text \<open>
  An error of the library's base class, as far as the constructor below reads and
  writes it: its name, the short message and the options \<open>metaMessages\<close>, \<open>docsPath\<close> and
  \<open>cause\<close> given to the base constructor. An absent option is \<open>None\<close>.
\<close>

datatype BaseError =
  BaseError (errorName: string) (shortMessage: string) (metaMessages: "string list option")
    (docsPath: "string option") (cause: "BaseError option")

datatype PrettyValue = PrettyString string | PrettyBigInt int

text \<open>
  \<open>prettyPrint\<close> is imported from \<open>./utils\<close>, which is not among the sources; it is a
  parameter. \<open>filter(Boolean)\<close> on an array of strings drops the empty strings.
\<close>

definition EstimateUserOperationGasError ::
  "((string \<times> PrettyValue) list \<Rightarrow> string) \<Rightarrow> BaseError \<Rightarrow> UserOperation \<Rightarrow> Address
     \<Rightarrow> string option \<Rightarrow> BaseError" where
  "EstimateUserOperationGasError prettyPrint c userOperation ep dp =
     (let prettyArgs = prettyPrint
            [(''sender'', PrettyString (sender userOperation)),
             (''nonce'', PrettyBigInt (nonce userOperation)),
             (''initCode'', PrettyString (initCode userOperation)),
             (''callData'', PrettyString (callData userOperation)),
             (''callGasLimit'', PrettyBigInt (callGasLimit userOperation)),
             (''verificationGasLimit'', PrettyBigInt (verificationGasLimit userOperation)),
             (''preVerificationGas'', PrettyBigInt (preVerificationGas userOperation)),
             (''maxFeePerGas'', PrettyBigInt (maxFeePerGas userOperation)),
             (''maxPriorityFeePerGas'', PrettyBigInt (maxPriorityFeePerGas userOperation)),
             (''paymasterAndData'', PrettyString (paymasterAndData userOperation)),
             (''signature'', PrettyString (signature userOperation)),
             (''entryPoint'', PrettyString ep)]
      in BaseError ''EstimateUserOperationGasError''
           (shortMessage c)
           (Some (filter (\<lambda>m. m \<noteq> [])
                    ((case metaMessages c of Some ms \<Rightarrow> ms @ ['' ''] | None \<Rightarrow> [])
                     @ [''Estimate Gas Arguments:'', prettyArgs])))
           dp
           (Some c))"

section \<open>The smart account client\<close>

text \<open>What a client hands to its transport when it sets it up.\<close>

record 'c TransportOptions =
  options_chain :: "'c option"
  options_pollingInterval :: "nat option"
  retryCount :: "nat option"
  timeout :: "nat option"

text \<open>
  The configuration object. The caller's parameters have no \<open>type\<close>; the object given to
  \<open>createClient\<close> is the caller's with \<open>key\<close>, \<open>name\<close>, \<open>transport\<close> and \<open>type\<close>
  overwritten, as the object spread of the source does.
\<close>

record ('c, 'a, 'm, 't) ClientConfig =
  cacheTime :: "nat option"
  chain :: "'c option"
  key :: "string option"
  name :: "string option"
  pollingInterval :: "nat option"
  transport :: "'c TransportOptions \<Rightarrow> 't"
  account :: "'a option"
  sponsorUserOperation :: "'m option"
  clientType :: "string option"

definition smartAccountClientConfig ::
  "('c, 'a, 'm, 't) ClientConfig \<Rightarrow> ('c, 'a, 'm, 't) ClientConfig" where
  "smartAccountClientConfig parameters =
     parameters
       \<lparr>key := Some (case key parameters of None \<Rightarrow> ''Account'' | Some k \<Rightarrow> k),
        name := Some (case name parameters of None \<Rightarrow> ''Smart Account Client'' | Some n \<Rightarrow> n),
        transport := (\<lambda>opts. transport parameters (opts\<lparr>retryCount := Some 0\<rparr>)),
        clientType := Some ''smartAccountClient''\<rparr>"

text \<open>\<open>createClient\<close>, the client's \<open>extend\<close> and \<open>smartAccountActions\<close> belong to
  other modules and are parameters.\<close>

definition createSmartAccountClient ::
  "(('c, 'a, 'm, 't) ClientConfig \<Rightarrow> 'client) \<Rightarrow> ('client \<Rightarrow> 'actions \<Rightarrow> 'extended)
     \<Rightarrow> ('m option \<Rightarrow> 'actions) \<Rightarrow> ('c, 'a, 'm, 't) ClientConfig \<Rightarrow> 'extended" where
  "createSmartAccountClient createClient extendWith smartAccountActions parameters =
     extendWith (createClient (smartAccountClientConfig parameters))
       (smartAccountActions (sponsorUserOperation parameters))"

text \<open>
  What the caller's transport does with the options is the caller's and the library's
  affair. The library's \<open>http\<close> transport is written like this: a retry count fixed when
  the transport was built wins over the one in the options, and 3 is used when there is
  neither. \<open>httpRetryCount configured\<close> is such a transport, reduced to the retry count
  it works with.
\<close>

definition httpRetryCount :: "nat option \<Rightarrow> 'c TransportOptions \<Rightarrow> nat" where
  "httpRetryCount configured opts =
     (case configured of
        Some n \<Rightarrow> n
      | None \<Rightarrow> (case retryCount opts of Some n \<Rightarrow> n | None \<Rightarrow> 3))"

section \<open>The address derivation in the words of the specification\<close>

text \<open>
  The specification describes the derived address with byte strings: \<open>a \<parallel> b\<close> is the
  bytes of \<open>a\<close> followed by those of \<open>b\<close>, and a number or an address "as a word" is
  its 32-byte big-endian form, an address being padded with zero bytes on the left. On
  hex strings with the prefix \<open>0x\<close> these read as follows; they are stated
  independently of the encoder above, to compare the source with.
\<close>

definition spec_concat :: "Hex \<Rightarrow> Hex \<Rightarrow> Hex" where
  "spec_concat a b = ''0x'' @ drop 2 a @ drop 2 b"

definition spec_uint256AsWord :: "int \<Rightarrow> Hex" where
  "spec_uint256AsWord n = ''0x'' @ padStart 64 (CHR ''0'') (toString16 (nat n))"

definition spec_addressAsWord :: "Address \<Rightarrow> Hex" where
  "spec_addressAsWord a = ''0x'' @ padStart 64 (CHR ''0'') (toLowerCase (drop 2 a))"

definition spec_deriveAddress ::
  "Viem \<Rightarrow> Hex \<Rightarrow> Address \<Rightarrow> Address \<Rightarrow> Address \<Rightarrow> Address \<Rightarrow> Address \<Rightarrow> int
     \<Rightarrow> error + Address" where
  "spec_deriveAddress lib proxyCreationCode owner addModuleLib module4337 factory singleton n =
     andThen (getInitializerCode lib owner addModuleLib module4337)
       (\<lambda>initializer.
     andThen (keccak256 lib initializer)
       (\<lambda>initializerHash.
     andThen (keccak256 lib (spec_concat initializerHash (spec_uint256AsWord n)))
       (\<lambda>salt.
          getContractAddress_CREATE2 lib factory salt
            (spec_concat proxyCreationCode (spec_addressAsWord singleton)))))"

section \<open>Test doubles\<close>

text \<open>
  A fixed owner, library and chain to run the model on: the hashes and encodings are
  placeholders of the right shape, the chain reports no code at an address until that
  address has been asked about once.
\<close>

definition example_owner :: LocalAccount where
  "example_owner =
     \<lparr>address = ''0xf39Fd6e51aad88F6F4ce6aB8827279cffFb92266'',
      signMessage_raw = (\<lambda>h. Inr ''0x5a5a01''),
      signTypedData_owner = (\<lambda>td. Inr ''0x5a5a00'')\<rparr>"

definition example_lib :: Viem where
  "example_lib =
     \<lparr>keccak256 = (\<lambda>h. Inr (''0x'' @ replicate 64 (CHR ''e''))),
      getContractAddress_CREATE2 = (\<lambda>from salt bytecode. Inr (''0x'' @ take 40 (drop 2 salt))),
      encodeFunctionData =
        (\<lambda>f args. Inr (''0x'' @ padStart 8 (CHR ''0'')
                                    (toString16 (256 * length (functionName f) + length args)))),
      hashMessage = (\<lambda>m. Inr (''0x'' @ replicate 64 (CHR ''1''))),
      hashTypedData = (\<lambda>td. Inr (''0x'' @ replicate 64 (CHR ''2''))),
      privateKeyToAccount = (\<lambda>k. Inr example_owner)\<rparr>"

definition example_client :: "nat \<Rightarrow> Client" where
  "example_client cid =
     \<lparr>answer_chainId = (\<lambda>asked. Inr cid),
      answer_proxyCreationCode = (\<lambda>asked a. Inr ''0x608060''),
      answer_bytecode = (\<lambda>asked a. if GetBytecode a \<in> set asked then Inr (Some ''0x6080'')
                                    else Inr None),
      requests = []\<rparr>"

definition example_parameters :: SafeSmartAccountParameters where
  "example_parameters =
     \<lparr>privateKey = ''0xac0974bec39a17e36ba4a6b4d238ff944bacb478cbed5efcae784d7bf4f2ff80'',
      safeVersion = V_1_4_1,
      entryPoint = ''0x5FF137D4b0FDCD49DcA30c7CF57E578a026d2789'',
      addModuleLibAddress_override = None,
      safe4337ModuleAddress_override = None,
      safeProxyFactoryAddress_override = None,
      safeSingletonAddress_override = None,
      saltNonce_given = None\<rparr>"

definition example_account :: SafeSmartAccount where
  "example_account =
     \<lparr>privateKeyAccount = example_owner,
      accountChainId = 11155111,
      accountAddress = ''0x'' @ replicate 40 (CHR ''e''),
      accountEntryPoint = ''0x5FF137D4b0FDCD49DcA30c7CF57E578a026d2789'',
      addModuleLibAddress = ''0x191EFDC03615B575922289DC339F4c70aC5C30Af'',
      safe4337ModuleAddress = ''0x39E54Bb2b3Aa444b4B39DEe15De3b7809c36Fc38'',
      safeProxyFactoryAddress = ''0x4e1DCf7AD4e460CfD30791CCC4F9c8a4f820ec67'',
      safeSingletonAddress = ''0x41675C099F32341bf84BFc5382aF534df5C7461a'',
      saltNonce = 0\<rparr>"

definition example_userOperation :: UserOperation where
  "example_userOperation =
     \<lparr>sender = ''0x'' @ replicate 40 (CHR ''e''),
      nonce = 0,
      initCode = ''0x'',
      callData = ''0x7bb37428'',
      callGasLimit = 100000,
      verificationGasLimit = 500000,
      preVerificationGas = 50000,
      maxFeePerGas = 1000000000,
      maxPriorityFeePerGas = 1000000000,
      paymasterAndData = ''0x'',
      signature = ''0x''\<rparr>"

definition example_prettyPrint :: "(string \<times> PrettyValue) list \<Rightarrow> string" where
  "example_prettyPrint args = concat (map (\<lambda>(k, v). k @ '';'') args)"

definition example_cause :: BaseError where
  "example_cause =
     BaseError ''RpcRequestError'' ''execution reverted'' (Some ['''', ''AA21 did not pay prefund''])
       None None"

text \<open>
  A collation to sort with: strings are compared by the weights of their characters from
  left to right, and the underscore weighs less than every digit and letter, as in
  collations that put punctuation first; the other characters weigh as their code units.
\<close>

definition example_weight :: "char \<Rightarrow> nat" where
  "example_weight c = (if c = CHR ''_'' then 0 else 1 + of_char c)"

definition example_localeCompare :: "string \<Rightarrow> string \<Rightarrow> int" where
  "example_localeCompare a b =
     (if map example_weight a < map example_weight b then - 1
      else if map example_weight a = map example_weight b then 0 else 1)"

text \<open>Client parameters whose transport is the library's kind, with and without a retry
  count of its own, and the options of a client that sets none.\<close>

definition example_clientParameters :: "nat option \<Rightarrow> (unit, unit, unit, nat) ClientConfig" where
  "example_clientParameters configured =
     \<lparr>cacheTime = None, chain = None, key = None, name = None, pollingInterval = None,
      transport = httpRetryCount configured, account = None, sponsorUserOperation = None,
      clientType = None\<rparr>"

definition example_transportOptions :: "unit TransportOptions" where
  "example_transportOptions =
     \<lparr>options_chain = None, options_pollingInterval = None, retryCount = None, timeout = None\<rparr>"

section \<open>Properties\<close>

subsection \<open>Auxiliary facts\<close>

lemma andThen_simps [simp]:
  "andThen (Inl e) f = Inl e" "andThen (Inr x) f = f x"
  by (simp_all add: andThen_def)

lemma hexDigitValue_bound: "hexDigitValue c = Some d \<Longrightarrow> d < 16"
  by (auto simp: hexDigitValue_def split: if_splits)

lemma hexDigit_not_special:
  assumes "hexDigitValue c = Some d"
  shows "\<not> isWhiteSpace c" "c \<noteq> CHR ''-''" "c \<noteq> CHR ''+''" "c \<noteq> CHR ''x''" "c \<noteq> CHR ''X''"
  using assms by (auto simp: hexDigitValue_def isWhiteSpace_def split: if_splits)

lemma hexDigitChar_lower:
  "hexDigitValue c = Some d \<Longrightarrow> hexDigitChar d = toLowerCaseChar c"
  by (auto simp: hexDigitValue_def hexDigitChar_def toLowerCaseChar_def split: if_splits)

lemma parseInt16_two_digits:
  assumes "hexDigitValue c1 = Some d1" and "hexDigitValue c2 = Some d2"
  shows "parseInt16 [c1, c2] = Some (int (16 * d1 + d2))"
  using assms hexDigit_not_special[OF assms(1)] hexDigit_not_special[OF assms(2)]
  by (simp add: parseInt16_def isHexDigit_def)

lemma slice_append2:
  "sliceLast2 (pre @ [c1, c2]) = [c1, c2]" "sliceButLast2 (pre @ [c1, c2]) = pre"
  by (simp_all add: sliceLast2_def sliceButLast2_def)

lemma toString16_v:
  "toString16 27 = ''1b''" "toString16 28 = ''1c''" "toString16 31 = ''1f''" "toString16 32 = ''20''"
  by (simp_all add: toString16.simps hexDigitChar_def)

lemma finalByte_append2:
  "hexDigitValue a = Some x \<Longrightarrow> hexDigitValue b = Some y
     \<Longrightarrow> finalByte (pre @ [a, b]) = Some (16 * x + y)"
  by (simp add: finalByte_def slice_append2)

lemma hexDigitValue_consts:
  "hexDigitValue CHR ''1'' = Some 1" "hexDigitValue CHR ''2'' = Some 2"
  "hexDigitValue CHR ''0'' = Some 0" "hexDigitValue CHR ''b'' = Some 11"
  "hexDigitValue CHR ''c'' = Some 12" "hexDigitValue CHR ''f'' = Some 15"
  by (simp_all add: hexDigitValue_def)

lemma finalByte_v:
  "finalByte (pre @ ''1b'') = Some 27" "finalByte (pre @ ''1c'') = Some 28"
  "finalByte (pre @ ''1f'') = Some 31" "finalByte (pre @ ''20'') = Some 32"
  by (simp_all add: finalByte_append2 hexDigitValue_consts)

lemma adjustVInSignature_two_digits:
  assumes "hexDigitValue c1 = Some d1" and "hexDigitValue c2 = Some d2"
  shows "adjustVInSignature m (pre @ [c1, c2]) =
     (let v = 16 * d1 + d2 in
      if v \<in> {0, 1, 27, 28}
      then Inr (pre @ toString16 (if m = eth_sign then (if v < 27 then v + 27 else v) + 4
                                   else (if v < 27 then v + 27 else v)))
      else Inl (Error ''Invalid signature''))"
  using assms
  by (cases m)
    (auto simp add: adjustVInSignature_def slice_append2 parseInt16_two_digits Let_def
      ETHEREUM_V_VALUES_def MIN_VALID_V_VALUE_FOR_SAFE_ECDSA_def nat_add_distrib
      simp del: of_nat_add of_nat_mult)


lemma sortAndConcat_single: "sortAndConcat localeCompare [s] = ''0x'' @ drop 2 (data s)"
  by (simp add: sortAndConcat_def sortBy_def appendSignatures_def)

lemma hexDigitsValue_snoc:
  "hexDigitsValue acc (ds @ [c]) =
     16 * hexDigitsValue acc ds + (case hexDigitValue c of Some d \<Rightarrow> d | None \<Rightarrow> 0)"
  by (induction ds arbitrary: acc) simp_all

lemma hexDigitsValue_less:
  "list_all isHexDigit ds \<Longrightarrow> hexDigitsValue 0 ds < 16 ^ length ds"
proof (induction ds rule: rev_induct)
  case Nil
  then show ?case by simp
next
  case (snoc c ds)
  from snoc.prems have c: "isHexDigit c" and all: "list_all isHexDigit ds"
    by simp_all
  from c obtain d where d: "hexDigitValue c = Some d"
    by (auto simp: isHexDigit_def)
  from d have "d < 16" by (rule hexDigitValue_bound)
  moreover from snoc.IH all have "hexDigitsValue 0 ds < 16 ^ length ds" by simp
  ultimately show ?case by (simp add: hexDigitsValue_snoc d)
qed

lemma toString16_digit: "d < 16 \<Longrightarrow> toString16 d = [hexDigitChar d]"
  by (simp add: toString16.simps)

lemma toString16_snoc:
  assumes "d < 16" and "m \<noteq> 0"
  shows "toString16 (16 * m + d) = toString16 m @ [hexDigitChar d]"
proof -
  from assms have "\<not> 16 * m + d < 16" "(16 * m + d) div 16 = m" "(16 * m + d) mod 16 = d"
    by simp_all
  then show ?thesis by (subst toString16.simps) simp
qed

lemma padStart_snoc: "padStart n z (s @ [x]) = padStart (n - 1) z s @ [x]"
  by (simp add: padStart_def)

lemma toString16_hexDigitsValue:
  assumes "list_all isHexDigit ds" and "ds \<noteq> []" and "length ds \<le> n"
  shows "padStart n (CHR ''0'') (toString16 (hexDigitsValue 0 ds))
           = padStart n (CHR ''0'') (toLowerCase ds)"
  using assms
proof (induction ds arbitrary: n rule: rev_induct)
  case Nil
  then show ?case by simp
next
  case (snoc c ds)
  from snoc.prems have c: "isHexDigit c" and all: "list_all isHexDigit ds"
    by simp_all
  from c obtain d where d: "hexDigitValue c = Some d"
    by (auto simp: isHexDigit_def)
  from d have d16: "d < 16" by (rule hexDigitValue_bound)
  have lc: "hexDigitChar d = toLowerCaseChar c" using d by (rule hexDigitChar_lower)
  define m where "m = hexDigitsValue 0 ds"
  have val: "hexDigitsValue 0 (ds @ [c]) = 16 * m + d"
    by (simp add: hexDigitsValue_snoc d m_def)
  have lower: "toLowerCase (ds @ [c]) = toLowerCase ds @ [toLowerCaseChar c]"
    by (simp add: toLowerCase_def)
  show ?case
  proof (cases "ds = []")
    case True
    have "hexDigitsValue 0 [c] = d" by (simp add: d)
    with True show ?thesis
      by (simp add: toString16_digit [OF d16] lc toLowerCase_def)
  next
    case False
    then have "1 \<le> length ds" by (cases ds) simp_all
    with snoc.prems have n: "length ds \<le> n - 1" "2 \<le> n" by simp_all
    have IH: "padStart (n - 1) (CHR ''0'') (toString16 m)
                = padStart (n - 1) (CHR ''0'') (toLowerCase ds)"
      unfolding m_def using snoc.IH [OF all False n(1)] .
    show ?thesis
    proof (cases "m = 0")
      case True
      have z: "toString16 0 = ''0''" by (simp add: toString16.simps hexDigitChar_def)
      from n(2) have "n - 1 = Suc (n - 2)" by arith
      then have "replicate (n - 1) (CHR ''0'') = replicate (n - 2) (CHR ''0'') @ ''0''"
        by (simp add: replicate_append_same)
      then have "padStart n (CHR ''0'') [toLowerCaseChar c]
                   = padStart (n - 1) (CHR ''0'') ''0'' @ [toLowerCaseChar c]"
        by (simp add: padStart_def)
      also have "padStart (n - 1) (CHR ''0'') ''0'' = padStart (n - 1) (CHR ''0'') (toLowerCase ds)"
        using IH True by (simp add: z)
      finally show ?thesis
        using True by (simp add: val toString16_digit [OF d16] lc lower padStart_snoc)
    next
      case nz: False
      have "toString16 (16 * m + d) = toString16 m @ [toLowerCaseChar c]"
        using toString16_snoc [OF d16 nz] by (simp add: lc)
      with IH show ?thesis
        by (simp add: val lower padStart_snoc)
    qed
  qed
qed

lemma trimEnd_hex: "list_all isHexDigit ds \<Longrightarrow> trimEnd ds = ds"
proof (induction ds rule: rev_induct)
  case Nil
  then show ?case by (simp add: trimEnd_def)
next
  case (snoc c ds)
  then obtain d where "hexDigitValue c = Some d" by (auto simp: isHexDigit_def)
  then have "\<not> isWhiteSpace c" by (rule hexDigit_not_special)
  then show ?case by (simp add: trimEnd_def)
qed

lemma replace0x_prefix: "replace0x (''0x'' @ r) = r"
  by simp

lemma replace0x_take: "take 2 h = ''0x'' \<Longrightarrow> replace0x h = drop 2 h"
  by (metis append_take_drop_id replace0x_prefix)

lemma numberToHex32_nat:
  "n < 2 ^ 256 \<Longrightarrow> numberToHex32 (int n) = Inr (''0x'' @ padStart 64 (CHR ''0'') (toString16 n))"
proof -
  assume "n < 2 ^ 256"
  then have "int n < 2 ^ 256" by (metis of_nat_less_iff of_nat_numeral of_nat_power)
  then show ?thesis by (simp add: numberToHex32_def)
qed

lemma hexToBigInt_address:
  assumes "take 2 a = ''0x''" and "list_all isHexDigit (drop 2 a)" and "drop 2 a \<noteq> []"
  shows "hexToBigInt a = Inr (int (hexDigitsValue 0 (drop 2 a)))"
  using assms by (simp add: hexToBigInt_def trimEnd_hex)

lemma numberToHex32_address:
  assumes "list_all isHexDigit ds" and "ds \<noteq> []" and "length ds \<le> 64"
  shows "numberToHex32 (int (hexDigitsValue 0 ds))
           = Inr (''0x'' @ padStart 64 (CHR ''0'') (toLowerCase ds))"
proof -
  have "hexDigitsValue 0 ds < 16 ^ length ds" using assms(1) by (rule hexDigitsValue_less)
  also have "(16::nat) ^ length ds \<le> 16 ^ 64" by (rule power_increasing) (use assms(3) in simp_all)
  also have "(16::nat) ^ 64 = 2 ^ 256" by simp
  finally have "hexDigitsValue 0 ds < 2 ^ 256" .
  then show ?thesis
    by (simp add: numberToHex32_nat toString16_hexDigitsValue [OF assms])
qed

subsection \<open>The signature normaliser\<close>

text \<open>
  C2. Let the signature end in two hex digits that denote the byte \<open>v\<close>. Signing a plain
  message, \<open>v\<close> in \<open>{0, 1}\<close> gives a last byte \<open>v + 27 + 4\<close> and \<open>v\<close> in \<open>{27, 28}\<close> gives
  \<open>v + 4\<close>; signing typed data, \<open>v\<close> below 27 gives \<open>v + 27\<close> and \<open>v\<close> in \<open>{27, 28}\<close>
  stays. In each of these cases everything before the last byte is returned as it was
  and the length is kept. Any other \<open>v\<close> is refused with the error
  \<open>Invalid signature\<close>, under both methods.
\<close>

theorem adjustVInSignature_normalizes:
  assumes "hexDigitValue c1 = Some d1" and "hexDigitValue c2 = Some d2"
    and "v = 16 * d1 + d2" and "sig = pre @ [c1, c2]"
  shows "(v \<in> {0, 1} \<longrightarrow>
            (\<exists>r. adjustVInSignature eth_sign sig = Inr r \<and> finalByte r = Some (v + 27 + 4)
                 \<and> sliceButLast2 r = pre \<and> length r = length sig))
       \<and> (v \<in> {27, 28} \<longrightarrow>
            (\<exists>r. adjustVInSignature eth_sign sig = Inr r \<and> finalByte r = Some (v + 4)
                 \<and> sliceButLast2 r = pre \<and> length r = length sig))
       \<and> (v \<in> {0, 1} \<longrightarrow>
            (\<exists>r. adjustVInSignature eth_signTypedData sig = Inr r \<and> finalByte r = Some (v + 27)
                 \<and> sliceButLast2 r = pre \<and> length r = length sig))
       \<and> (v \<in> {27, 28} \<longrightarrow>
            (\<exists>r. adjustVInSignature eth_signTypedData sig = Inr r \<and> finalByte r = Some v
                 \<and> sliceButLast2 r = pre \<and> length r = length sig))
       \<and> (v \<notin> {0, 1, 27, 28} \<longrightarrow>
            adjustVInSignature signingMethod sig = Inl (Error ''Invalid signature''))"
proof -
  note step = adjustVInSignature_two_digits [OF assms(1,2), of _ pre, folded assms(3,4)]
  have tail: "sliceButLast2 (pre @ [a, b]) = pre" "length sig = Suc (Suc (length pre))" for a b
    by (simp_all add: slice_append2 assms(4))
  have "v = 0 \<or> v = 1 \<or> v = 27 \<or> v = 28 \<or> v \<notin> {0, 1, 27, 28}" by auto
  then show ?thesis
    by (elim disjE) (simp_all add: step toString16_v finalByte_v tail)
qed

theorem adjustVInSignature_normalizes_witness:
  "(\<exists>r. adjustVInSignature eth_sign ''0xab01'' = Inr r \<and> finalByte r = Some 32
        \<and> sliceButLast2 r = ''0xab'')
   \<and> (\<exists>r. adjustVInSignature eth_signTypedData ''0xab01'' = Inr r \<and> finalByte r = Some 28)
   \<and> (\<exists>r. adjustVInSignature eth_sign ''0xab1C'' = Inr r \<and> finalByte r = Some 32)
   \<and> (\<exists>r. adjustVInSignature eth_signTypedData ''0xab1C'' = Inr r \<and> finalByte r = Some 28)
   \<and> adjustVInSignature eth_sign ''0xab02'' = Inl (Error ''Invalid signature'')"
  using adjustVInSignature_normalizes [of "CHR ''0''" 0 "CHR ''1''" 1 1 "''0xab01''" "''0xab''"]
    adjustVInSignature_normalizes [of "CHR ''1''" 1 "CHR ''C''" 12 28 "''0xab1C''" "''0xab''"]
    adjustVInSignature_normalizes [of "CHR ''0''" 0 "CHR ''2''" 2 2 "''0xab02''" "''0xab''" eth_sign]
  by (auto simp add: hexDigitValue_def)

subsection \<open>Operations the account does not support\<close>

text \<open>
  C5. Whatever the arguments, \<open>signTransaction\<close> and \<open>encodeDeployCallData\<close> fail and
  return no value: the first with the error class
  \<open>SignTransactionNotSupportedBySafeSmartAccount\<close>, the second with an error whose message
  says that the account does not support deployment.
\<close>

theorem unsupported_operations_always_fail:
  "signTransaction t a = Inl SignTransactionNotSupportedBySafeSmartAccount
   \<and> encodeDeployCallData x = Inl (Error ''Safe account doesn't support account deployment'')
   \<and> (\<forall>v. signTransaction t a \<noteq> Inr v)
   \<and> (\<forall>v. encodeDeployCallData x \<noteq> Inr v)"
  by (simp add: signTransaction_def encodeDeployCallData_def)

subsection \<open>What a user operation's signature is made over\<close>

text \<open>
  C3. \<open>signUserOperation\<close> asks the owner key for one typed-data signature. The structure
  signed has the single type \<open>SafeOp\<close> with the fields safe:address, callData:bytes,
  nonce:uint256, preVerificationGas:uint256, verificationGasLimit:uint256,
  callGasLimit:uint256, maxFeePerGas:uint256, maxPriorityFeePerGas:uint256 and
  entryPoint:address, in this order; its domain is the chain id with the 4337 module as
  verifying contract, while the structure of \<open>signMessage\<close> and \<open>signTypedData\<close> has the
  account address there.
\<close>

theorem signUserOperation_signs_SafeOp:
  "signUserOperation localeCompare acct uo =
     (case signTypedData_owner (privateKeyAccount acct)
             \<lparr>domain = \<lparr>chainId = accountChainId acct,
                        verifyingContract = safe4337ModuleAddress acct\<rparr>,
              types = [(''SafeOp'',
                        map (\<lambda>(n, t). (t, n))
                          [(''safe'', ''address''), (''callData'', ''bytes''), (''nonce'', ''uint256''),
                           (''preVerificationGas'', ''uint256''),
                           (''verificationGasLimit'', ''uint256''),
                           (''callGasLimit'', ''uint256''), (''maxFeePerGas'', ''uint256''),
                           (''maxPriorityFeePerGas'', ''uint256''), (''entryPoint'', ''address'')])],
              primaryType = ''SafeOp'',
              message = [(''safe'', VAddress (accountAddress acct)),
                         (''callData'', VBytes (callData uo)),
                         (''nonce'', VUint (nonce uo)),
                         (''preVerificationGas'', VUint (preVerificationGas uo)),
                         (''verificationGasLimit'', VUint (verificationGasLimit uo)),
                         (''callGasLimit'', VUint (callGasLimit uo)),
                         (''maxFeePerGas'', VUint (maxFeePerGas uo)),
                         (''maxPriorityFeePerGas'', VUint (maxPriorityFeePerGas uo)),
                         (''entryPoint'', VAddress (accountEntryPoint acct))]\<rparr> of
        Inl e \<Rightarrow> Inl e
      | Inr d \<Rightarrow> Inr (''0x'' @ drop 2 d))
   \<and> verifyingContract (domain (safeOpTypedData acct uo)) = safe4337ModuleAddress acct
   \<and> verifyingContract (domain (safeMessageTypedData acct h)) = accountAddress acct"
  by (simp add: signUserOperation_def safeOpTypedData_def safeMessageTypedData_def
      EIP712_SAFE_OPERATION_TYPE_def sortAndConcat_single andThen_def split: sum.splits)

subsection \<open>The client's transport\<close>

text \<open>
  C9, as the code has it. The client is created from a configuration whose transport
  calls the caller's transport with the options it receives and \<open>retryCount\<close> set to 0;
  the retry count in those options has no influence. What that does to retries is up to
  the caller's transport: one built like the library's \<open>http\<close> does not retry when it was
  given no retry count of its own, and keeps its own retry count when it was given one.
\<close>

theorem createSmartAccountClient_retryCount_zero:
  "createSmartAccountClient createClient extendWith actions parameters =
     extendWith (createClient (smartAccountClientConfig parameters))
       (actions (sponsorUserOperation parameters))
   \<and> transport (smartAccountClientConfig parameters) opts =
       transport parameters (opts\<lparr>retryCount := Some 0\<rparr>)
   \<and> retryCount (opts\<lparr>retryCount := Some 0\<rparr>) = Some 0
   \<and> transport (smartAccountClientConfig parameters) (opts\<lparr>retryCount := r\<rparr>) =
       transport (smartAccountClientConfig parameters) opts
   \<and> (transport httpParameters = httpRetryCount configured \<longrightarrow>
        transport (smartAccountClientConfig httpParameters) httpOptions =
          (case configured of None \<Rightarrow> 0 | Some n \<Rightarrow> n))"
  by (simp add: createSmartAccountClient_def smartAccountClientConfig_def httpRetryCount_def
      split: option.splits)

theorem createSmartAccountClient_retryCount_zero_witness:
  "transport (smartAccountClientConfig (example_clientParameters None)) example_transportOptions = 0
   \<and> transport (smartAccountClientConfig (example_clientParameters None))
        (example_transportOptions\<lparr>retryCount := Some 5\<rparr>) = 0"
proof -
  note follows =
    createSmartAccountClient_retryCount_zero
      [THEN conjunct2, THEN conjunct2, THEN conjunct2, THEN conjunct2, rule_format]
  have own: "transport (example_clientParameters None) = httpRetryCount None"
    by (simp add: example_clientParameters_def)
  from follows [OF own, of example_transportOptions]
    follows [OF own, of "example_transportOptions\<lparr>retryCount := Some 5\<rparr>"]
  show ?thesis by simp
qed

text \<open>
  A caller's transport built with a retry count of 3: the client's transport works with
  3 retries, though it is called with \<open>retryCount\<close> 0.
\<close>

theorem createSmartAccountClient_transport_keeps_own_retryCount:
  "transport (smartAccountClientConfig (example_clientParameters (Some 3)))
     example_transportOptions = 3"
  by (simp add: smartAccountClientConfig_def example_clientParameters_def httpRetryCount_def)

subsection \<open>Ordering of signatures\<close>














subsection \<open>The counterfactual address\<close>

lemma concatHex_two:
  "take 2 a = ''0x'' \<Longrightarrow> take 2 b = ''0x'' \<Longrightarrow> concatHex [a, b] = spec_concat a b"
  by (simp add: concatHex_def spec_concat_def replace0x_take)

lemma concatHex_one: "take 2 a = ''0x'' \<Longrightarrow> concatHex [a] = a"
  using append_take_drop_id [of 2 a] by (simp add: concatHex_def replace0x_take)

lemma encodePacked_bytes: "take 2 h = ''0x'' \<Longrightarrow> encodePacked [PBytes h] = Inr h"
  by (simp add: encodePacked_def encodePacked_one_def concatHex_one)

lemma encodePacked_bytes_address:
  assumes "take 2 code = ''0x''"
    and "take 2 a = ''0x''" and "list_all isHexDigit (drop 2 a)"
    and "drop 2 a \<noteq> []" and "length (drop 2 a) \<le> 64"
  shows "andThen (hexToBigInt a) (\<lambda>v. encodePacked [PBytes code, PUint256 v])
           = Inr (spec_concat code (spec_addressAsWord a))"
proof -
  have "numberToHex32 (int (hexDigitsValue 0 (drop 2 a))) = Inr (spec_addressAsWord a)"
    using assms(3-5) by (simp add: numberToHex32_address spec_addressAsWord_def)
  moreover have "take 2 (spec_addressAsWord a) = ''0x''"
    by (simp add: spec_addressAsWord_def)
  ultimately show ?thesis
    using assms(1-4)
    by (simp add: hexToBigInt_address encodePacked_def encodePacked_one_def concatHex_two)
qed

lemma encodePacked_hash_nonce:
  assumes "take 2 h = ''0x''" and "length h = 66" and "0 \<le> n" and "n < 2 ^ 256"
  shows "encodePacked [PBytes32 h, PUint256 n] = Inr (spec_concat h (spec_uint256AsWord n))"
proof -
  have "numberToHex32 n = Inr (spec_uint256AsWord n)"
    using assms(3,4) by (simp add: numberToHex32_def spec_uint256AsWord_def)
  moreover have "take 2 (spec_uint256AsWord n) = ''0x''"
    by (simp add: spec_uint256AsWord_def)
  ultimately show ?thesis
    using assms(1,2) by (simp add: encodePacked_def encodePacked_one_def concatHex_two)
qed

lemma getInitializerCode_hex:
  assumes "\<And>f args h. encodeFunctionData lib f args = Inr h \<Longrightarrow> take 2 h = ''0x''"
    and "getInitializerCode lib owner a m = Inr i"
  shows "take 2 i = ''0x''"
  using assms(2) assms(1)
  by (auto simp: getInitializerCode_def andThen_def split: sum.splits)

text \<open>
  C1. Let the library's hashes be 32-byte hex strings and its encodings and the factory's
  creation code hex strings, the singleton address a hex string of 1 to 32 bytes, and the
  salt nonce within \<open>0 .. 2^256 - 1\<close>. Then \<open>getAccountAddress\<close> makes one chain read, of
  the factory's \<open>proxyCreationCode\<close>, and returns what CREATE2 gives for the factory
  address, the bytecode \<open>proxyCreationCode \<parallel> singleton as a word\<close> and the salt
  \<open>keccak256(keccak256(initializer) \<parallel> saltNonce as a word)\<close>, the initializer being
  the output of \<open>getInitializerCode\<close> for the same owner and module addresses. A failure of
  the read, of the initializer, of a hash or of CREATE2 is the result in its place.
\<close>

theorem getAccountAddress_is_CREATE2:
  assumes keccak_hex: "\<forall>x h. keccak256 lib x = Inr h \<longrightarrow> take 2 h = ''0x'' \<and> length h = 66"
    and encode_hex: "\<forall>f args h. encodeFunctionData lib f args = Inr h \<longrightarrow> take 2 h = ''0x''"
    and code_hex: "\<forall>code. answer_proxyCreationCode client (requests client) factory = Inr code
                     \<longrightarrow> take 2 code = ''0x''"
    and singleton_hex: "take 2 singleton = ''0x''" "list_all isHexDigit (drop 2 singleton)"
    and singleton_length: "2 < length singleton" "length singleton \<le> 66"
    and nonce_range: "0 \<le> n" "n < 2 ^ 256"
  shows "getAccountAddress lib client owner addModuleLib module4337 factory singleton n =
           (andThen (answer_proxyCreationCode client (requests client) factory)
              (\<lambda>proxyCreationCode.
                 spec_deriveAddress lib proxyCreationCode owner addModuleLib module4337 factory
                   singleton n),
            client\<lparr>requests := requests client @ [ReadProxyCreationCode factory]\<rparr>)"
proof (cases "answer_proxyCreationCode client (requests client) factory")
  case (Inl e)
  then show ?thesis
    by (simp add: getAccountAddress_def readContract_proxyCreationCode_def)
next
  case (Inr code)
  from code_hex Inr have code: "take 2 code = ''0x''" by simp
  from singleton_length have digits: "drop 2 singleton \<noteq> []" "length (drop 2 singleton) \<le> 64"
    by simp_all
  note deployment = encodePacked_bytes_address [OF code singleton_hex digits]
  have rest:
    "andThen (getInitializerCode lib owner addModuleLib module4337)
       (\<lambda>initializer.
          andThen (encodePacked [PBytes initializer])
            (\<lambda>packedInitializer.
               andThen (keccak256 lib packedInitializer)
                 (\<lambda>initializerHash.
                    andThen (encodePacked [PBytes32 initializerHash, PUint256 n])
                      (\<lambda>packedSalt.
                         andThen (keccak256 lib packedSalt)
                           (\<lambda>salt. getContractAddress_CREATE2 lib factory salt dc)))))
     = andThen (getInitializerCode lib owner addModuleLib module4337)
       (\<lambda>initializer.
          andThen (keccak256 lib initializer)
            (\<lambda>initializerHash.
               andThen (keccak256 lib (spec_concat initializerHash (spec_uint256AsWord n)))
                 (\<lambda>salt. getContractAddress_CREATE2 lib factory salt dc)))" for dc
  proof (cases "getInitializerCode lib owner addModuleLib module4337")
    case (Inl e)
    then show ?thesis by simp
  next
    case init: (Inr initializer)
    have i: "take 2 initializer = ''0x''"
      using encode_hex init by (blast intro: getInitializerCode_hex)
    show ?thesis
    proof (cases "keccak256 lib initializer")
      case (Inl e)
      with init i show ?thesis by (simp add: encodePacked_bytes)
    next
      case h: (Inr initializerHash)
      from keccak_hex h have "take 2 initializerHash = ''0x''" "length initializerHash = 66"
        by simp_all
      with init i h nonce_range show ?thesis
        by (simp add: encodePacked_bytes encodePacked_hash_nonce)
    qed
  qed
  have "getAccountAddress lib client owner addModuleLib module4337 factory singleton n =
          (andThen (andThen (hexToBigInt singleton)
                      (\<lambda>v. encodePacked [PBytes code, PUint256 v]))
             (\<lambda>deploymentCode.
                andThen (getInitializerCode lib owner addModuleLib module4337)
                  (\<lambda>initializer.
                andThen (encodePacked [PBytes initializer])
                  (\<lambda>packedInitializer.
                andThen (keccak256 lib packedInitializer)
                  (\<lambda>initializerHash.
                andThen (encodePacked [PBytes32 initializerHash, PUint256 n])
                  (\<lambda>packedSalt.
                andThen (keccak256 lib packedSalt)
                  (\<lambda>salt. getContractAddress_CREATE2 lib factory salt deploymentCode)))))),
           client\<lparr>requests := requests client @ [ReadProxyCreationCode factory]\<rparr>)"
    by (simp add: getAccountAddress_def readContract_proxyCreationCode_def Inr andThen_def
        split: sum.splits)
  then show ?thesis
    by (simp add: deployment rest Inr spec_deriveAddress_def)
qed

theorem getAccountAddress_is_CREATE2_witness:
  "getAccountAddress example_lib (example_client 11155111) (address example_owner)
     ''0x191EFDC03615B575922289DC339F4c70aC5C30Af'' ''0x39E54Bb2b3Aa444b4B39DEe15De3b7809c36Fc38''
     ''0x4e1DCf7AD4e460CfD30791CCC4F9c8a4f820ec67'' ''0x41675C099F32341bf84BFc5382aF534df5C7461a'' 0
   = (Inr (''0x'' @ replicate 40 (CHR ''e'')),
      (example_client 11155111)
        \<lparr>requests := [ReadProxyCreationCode ''0x4e1DCf7AD4e460CfD30791CCC4F9c8a4f820ec67'']\<rparr>)"
proof -
  have k: "\<forall>x h. keccak256 example_lib x = Inr h \<longrightarrow> take 2 h = ''0x'' \<and> length h = 66"
    by (auto simp: example_lib_def)
  have e: "\<forall>f args h. encodeFunctionData example_lib f args = Inr h \<longrightarrow> take 2 h = ''0x''"
    by (auto simp: example_lib_def)
  have c: "\<forall>code. answer_proxyCreationCode (example_client 11155111)
                     (requests (example_client 11155111))
                     ''0x4e1DCf7AD4e460CfD30791CCC4F9c8a4f820ec67'' = Inr code
             \<longrightarrow> take 2 code = ''0x''"
    by (auto simp: example_client_def)
  have s: "take 2 ''0x41675C099F32341bf84BFc5382aF534df5C7461a'' = ''0x''"
    "list_all isHexDigit (drop 2 ''0x41675C099F32341bf84BFc5382aF534df5C7461a'')"
    "2 < length ''0x41675C099F32341bf84BFc5382aF534df5C7461a''"
    "length ''0x41675C099F32341bf84BFc5382aF534df5C7461a'' \<le> 66"
    by (simp_all add: isHexDigit_def hexDigitValue_def)
  have n: "(0::int) \<le> 0" "(0::int) < 2 ^ 256" by simp_all
  have d: "spec_deriveAddress example_lib pc ow al mo fa si 0 = Inr (''0x'' @ replicate 40 (CHR ''e''))"
    for pc ow al mo fa si
    by (simp add: spec_deriveAddress_def getInitializerCode_def example_lib_def)
  have a: "answer_proxyCreationCode (example_client 11155111) asked fa = Inr ''0x608060''"
    "requests (example_client 11155111) = []" for asked fa
    by (simp_all add: example_client_def)
  show ?thesis
    by (subst getAccountAddress_is_CREATE2 [OF k e c s n]) (simp add: d a)
qed

subsection \<open>The deployment payload\<close>

lemma getInitCode_client:
  "snd (getInitCode lib acct client) =
     client\<lparr>requests := requests client @ [GetBytecode (accountAddress acct)]\<rparr>"
  by (simp add: getInitCode_def getBytecode_def)

lemma getInitCode_deployed:
  assumes "answer_bytecode client (requests client) (accountAddress acct) = Inr (Some code)"
    and "2 < length code"
  shows "fst (getInitCode lib acct client) = Inr ''0x''"
  using assms by (simp add: getInitCode_def getBytecode_def)

lemma length_spec_concat: "2 < length a \<Longrightarrow> 2 < length (spec_concat a b)"
  by (simp add: spec_concat_def)

lemma getInitCode_undeployed:
  assumes "answer_bytecode client (requests client) (accountAddress acct) = Inr r"
    and "(case r of None \<Rightarrow> 0 | Some code \<Rightarrow> length code) \<le> 2"
    and "address (privateKeyAccount acct) \<noteq> []"
    and "getInitializerCode lib (address (privateKeyAccount acct)) (addModuleLibAddress acct)
           (safe4337ModuleAddress acct) = Inr initializer"
    and "encodeFunctionData lib createProxyWithNonce_abi
           [VAddress (safeSingletonAddress acct), VBytes initializer, VUint (saltNonce acct)]
           = Inr initCodeCallData"
    and "take 2 (safeProxyFactoryAddress acct) = ''0x''"
    and "take 2 initCodeCallData = ''0x''"
  shows "fst (getInitCode lib acct client)
           = Inr (spec_concat (safeProxyFactoryAddress acct) initCodeCallData)"
  using assms
  by (simp add: getInitCode_def getBytecode_def getAccountInitCode_def concatHex_two)

text \<open>
  C4. Each call of \<open>getInitCode\<close> reads the bytecode at the account address once and keeps
  nothing: the client afterwards has that one request more, and the account is a value
  that the call cannot change. If the read gives a code longer than the two characters of
  the prefix, the result is \<open>0x\<close>. If it gives no code or a code of at most two
  characters, the owner address is not empty, and the initializer and the call data of
  \<open>createProxyWithNonce(singleton, initializer, saltNonce)\<close> are encoded as hex strings,
  then the result is the factory address followed by that call data, which is longer than
  the prefix; and if the chain then answers the next read with a code longer than the
  prefix, the second call returns \<open>0x\<close>.
\<close>

theorem getInitCode_follows_deployment_state:
  "snd (getInitCode lib acct client) =
     client\<lparr>requests := requests client @ [GetBytecode (accountAddress acct)]\<rparr>
   \<and> (\<forall>code. answer_bytecode client (requests client) (accountAddress acct) = Inr (Some code)
             \<and> 2 < length code
         \<longrightarrow> fst (getInitCode lib acct client) = Inr ''0x'')
   \<and> (\<forall>r initializer initCodeCallData.
         answer_bytecode client (requests client) (accountAddress acct) = Inr r
         \<and> (case r of None \<Rightarrow> 0 | Some code \<Rightarrow> length code) \<le> 2
         \<and> address (privateKeyAccount acct) \<noteq> []
         \<and> getInitializerCode lib (address (privateKeyAccount acct)) (addModuleLibAddress acct)
               (safe4337ModuleAddress acct) = Inr initializer
         \<and> encodeFunctionData lib createProxyWithNonce_abi
               [VAddress (safeSingletonAddress acct), VBytes initializer, VUint (saltNonce acct)]
               = Inr initCodeCallData
         \<and> take 2 (safeProxyFactoryAddress acct) = ''0x''
         \<and> 2 < length (safeProxyFactoryAddress acct)
         \<and> take 2 initCodeCallData = ''0x''
         \<longrightarrow> fst (getInitCode lib acct client)
               = Inr (spec_concat (safeProxyFactoryAddress acct) initCodeCallData)
             \<and> 2 < length (spec_concat (safeProxyFactoryAddress acct) initCodeCallData)
             \<and> (\<forall>code. answer_bytecode client
                          (requests client @ [GetBytecode (accountAddress acct)])
                          (accountAddress acct) = Inr (Some code)
                        \<and> 2 < length code
                    \<longrightarrow> fst (getInitCode lib acct (snd (getInitCode lib acct client)))
                          = Inr ''0x''))"
proof (intro conjI allI impI)
  show "snd (getInitCode lib acct client) =
     client\<lparr>requests := requests client @ [GetBytecode (accountAddress acct)]\<rparr>"
    by (rule getInitCode_client)
next
  fix code
  assume "answer_bytecode client (requests client) (accountAddress acct) = Inr (Some code)
             \<and> 2 < length code"
  then show "fst (getInitCode lib acct client) = Inr ''0x''"
    by (simp add: getInitCode_deployed)
next
  fix r initializer initCodeCallData
  assume h: "answer_bytecode client (requests client) (accountAddress acct) = Inr r
         \<and> (case r of None \<Rightarrow> 0 | Some code \<Rightarrow> length code) \<le> 2
         \<and> address (privateKeyAccount acct) \<noteq> []
         \<and> getInitializerCode lib (address (privateKeyAccount acct)) (addModuleLibAddress acct)
               (safe4337ModuleAddress acct) = Inr initializer
         \<and> encodeFunctionData lib createProxyWithNonce_abi
               [VAddress (safeSingletonAddress acct), VBytes initializer, VUint (saltNonce acct)]
               = Inr initCodeCallData
         \<and> take 2 (safeProxyFactoryAddress acct) = ''0x''
         \<and> 2 < length (safeProxyFactoryAddress acct)
         \<and> take 2 initCodeCallData = ''0x''"
  then show "fst (getInitCode lib acct client)
               = Inr (spec_concat (safeProxyFactoryAddress acct) initCodeCallData)"
    by (intro getInitCode_undeployed [where r = r and initializer = initializer]) simp_all
  from h show "2 < length (spec_concat (safeProxyFactoryAddress acct) initCodeCallData)"
    by (simp add: length_spec_concat)
  fix code
  assume "answer_bytecode client (requests client @ [GetBytecode (accountAddress acct)])
                          (accountAddress acct) = Inr (Some code)
                        \<and> 2 < length code"
  then show "fst (getInitCode lib acct (snd (getInitCode lib acct client))) = Inr ''0x''"
    by (intro getInitCode_deployed [where code = code]) (simp_all add: getInitCode_client)
qed

lemma example_encodings:
  "encodeFunctionData example_lib createProxyWithNonce_abi [a, b, c] = Inr ''0x00001403''"
  "getInitializerCode example_lib o1 a1 m1 = Inr ''0x00000508''"
proof -
  have "toString16 5123 = ''1403''" "toString16 3329 = ''d01''" "toString16 1288 = ''508''"
    by (simp_all add: toString16.simps hexDigitChar_def)
  moreover have "replicate 4 (CHR ''0'') = ''0000''" "replicate 5 (CHR ''0'') = ''00000''"
    by code_simp+
  ultimately show "encodeFunctionData example_lib createProxyWithNonce_abi [a, b, c] = Inr ''0x00001403''"
    "getInitializerCode example_lib o1 a1 m1 = Inr ''0x00000508''"
    by (simp_all add: example_lib_def createProxyWithNonce_abi_def getInitializerCode_def
        setup_abi_def enableModules_abi_def padStart_def)
qed

theorem getInitCode_follows_deployment_state_witness:
  "fst (getInitCode example_lib example_account (example_client 5))
     = Inr ''0x4e1DCf7AD4e460CfD30791CCC4F9c8a4f820ec6700001403''
   \<and> fst (getInitCode example_lib example_account
            (snd (getInitCode example_lib example_account (example_client 5))))
     = Inr ''0x''"
proof -
  note undeployed =
    getInitCode_follows_deployment_state
      [of example_lib example_account "example_client 5", THEN conjunct2, THEN conjunct2,
       rule_format, of None "''0x00000508''" "''0x00001403''"]
  have "fst (getInitCode example_lib example_account (example_client 5))
          = Inr (spec_concat (safeProxyFactoryAddress example_account) ''0x00001403'')
        \<and> 2 < length (spec_concat (safeProxyFactoryAddress example_account) ''0x00001403'')
        \<and> (\<forall>code. answer_bytecode (example_client 5)
                      (requests (example_client 5) @ [GetBytecode (accountAddress example_account)])
                      (accountAddress example_account) = Inr (Some code)
                    \<and> 2 < length code
                \<longrightarrow> fst (getInitCode example_lib example_account
                          (snd (getInitCode example_lib example_account (example_client 5))))
                      = Inr ''0x'')"
    by (rule undeployed)
      (simp add: example_encodings example_client_def example_account_def example_owner_def)
  then have first: "fst (getInitCode example_lib example_account (example_client 5))
          = Inr (spec_concat (safeProxyFactoryAddress example_account) ''0x00001403'')"
    and second: "answer_bytecode (example_client 5)
                      (requests (example_client 5) @ [GetBytecode (accountAddress example_account)])
                      (accountAddress example_account) = Inr (Some ''0x6080'')
                    \<and> 2 < length ''0x6080''
                \<longrightarrow> fst (getInitCode example_lib example_account
                          (snd (getInitCode example_lib example_account (example_client 5))))
                      = Inr ''0x''"
    by blast+
  have "answer_bytecode (example_client 5)
          (requests (example_client 5) @ [GetBytecode (accountAddress example_account)])
          (accountAddress example_account) = Inr (Some ''0x6080'') \<and> 2 < length ''0x6080''"
    by (simp add: example_client_def)
  with second have "fst (getInitCode example_lib example_account
                          (snd (getInitCode example_lib example_account (example_client 5))))
                      = Inr ''0x''"
    by (rule mp)
  moreover have "spec_concat (safeProxyFactoryAddress example_account) ''0x00001403''
                   = ''0x4e1DCf7AD4e460CfD30791CCC4F9c8a4f820ec6700001403''"
    by (simp add: spec_concat_def example_account_def)
  ultimately show ?thesis using first by simp
qed

subsection \<open>A chain without an entry in the address table\<close>

text \<open>
  C6, as the code has it. Let the private key be accepted, the chain answer the request
  for its id, the table have no entry for the version and that id, and no address be
  overridden. Then construction fails with the TypeError of reading
  \<open>ADD_MODULES_LIB_ADDRESS\<close> from the missing entry. It has then made one request to the
  chain, the one for the chain id, and no other: the failure comes before the read of the
  factory's creation code, not before every chain request.
\<close>

theorem privateKeyToSafeSmartAccount_unknown_network:
  assumes "privateKeyToAccount lib (privateKey params) = Inr pk"
    and "answer_chainId client (requests client) = Inr cid"
    and "SAFE_ADDRESSES_MAP (safeVersion params) (toString10 cid) = None"
    and "addModuleLibAddress_override params = None"
    and "safe4337ModuleAddress_override params = None"
    and "safeProxyFactoryAddress_override params = None"
    and "safeSingletonAddress_override params = None"
  shows "privateKeyToSafeSmartAccount lib client params =
           (Inl (TypeError ''ADD_MODULES_LIB_ADDRESS''),
            client\<lparr>requests := requests client @ [GetChainId]\<rparr>)"
  using assms
  by (simp add: privateKeyToSafeSmartAccount_def getChainId_def resolveAddress_def)

lemma toString10_examples: "toString10 10 = ''10''" "toString10 137 = ''137''"
  by (simp_all add: toString10.simps hexDigitChar_def)

theorem privateKeyToSafeSmartAccount_unknown_network_witness:
  "privateKeyToSafeSmartAccount example_lib (example_client 10) example_parameters =
     (Inl (TypeError ''ADD_MODULES_LIB_ADDRESS''), (example_client 10)\<lparr>requests := [GetChainId]\<rparr>)"
  using privateKeyToSafeSmartAccount_unknown_network
          [of example_lib example_parameters example_owner "example_client 10" 10]
  by (simp add: example_lib_def example_parameters_def example_client_def toString10_examples
      SAFE_ADDRESSES_MAP_def)

text \<open>
  On chain 137, which the table does not list, the client has made no request before
  construction and one, for the chain id, when construction has failed.
\<close>

theorem unknown_network_fails_after_chain_read:
  "requests (example_client 137) = []
   \<and> fst (privateKeyToSafeSmartAccount example_lib (example_client 137) example_parameters)
       = Inl (TypeError ''ADD_MODULES_LIB_ADDRESS'')
   \<and> requests (snd (privateKeyToSafeSmartAccount example_lib (example_client 137)
                       example_parameters))
       = [GetChainId]"
  by (simp add: privateKeyToSafeSmartAccount_def getChainId_def resolveAddress_def
      example_lib_def example_parameters_def example_client_def toString10_examples
      SAFE_ADDRESSES_MAP_def)

subsection \<open>The gas-estimation error\<close>

text \<open>
  C8, as the code has it. The error built from a cause has the cause's short message as
  its own and holds the cause itself. Its meta messages are: the cause's meta messages
  that are not empty strings, in their order; one blank (a single space), if the cause
  has a list of meta messages at all; the line \<open>Estimate Gas Arguments:\<close>; and the dump, by
  \<open>prettyPrint\<close>, of the eleven fields of the user operation and the entry point, unless
  that dump is the empty string.
\<close>

theorem EstimateUserOperationGasError_keeps_cause:
  "shortMessage (EstimateUserOperationGasError prettyPrint c uo ep dp) = shortMessage c
   \<and> cause (EstimateUserOperationGasError prettyPrint c uo ep dp) = Some c
   \<and> metaMessages (EstimateUserOperationGasError prettyPrint c uo ep dp) =
       Some (filter (\<lambda>m. m \<noteq> []) (case metaMessages c of None \<Rightarrow> [] | Some ms \<Rightarrow> ms)
             @ (case metaMessages c of None \<Rightarrow> [] | Some ms \<Rightarrow> ['' ''])
             @ [''Estimate Gas Arguments:'']
             @ filter (\<lambda>m. m \<noteq> [])
                 [prettyPrint
                    [(''sender'', PrettyString (sender uo)),
                     (''nonce'', PrettyBigInt (nonce uo)),
                     (''initCode'', PrettyString (initCode uo)),
                     (''callData'', PrettyString (callData uo)),
                     (''callGasLimit'', PrettyBigInt (callGasLimit uo)),
                     (''verificationGasLimit'', PrettyBigInt (verificationGasLimit uo)),
                     (''preVerificationGas'', PrettyBigInt (preVerificationGas uo)),
                     (''maxFeePerGas'', PrettyBigInt (maxFeePerGas uo)),
                     (''maxPriorityFeePerGas'', PrettyBigInt (maxPriorityFeePerGas uo)),
                     (''paymasterAndData'', PrettyString (paymasterAndData uo)),
                     (''signature'', PrettyString (signature uo)),
                     (''entryPoint'', PrettyString ep)]])"
  by (simp add: EstimateUserOperationGasError_def Let_def split: option.splits)

text \<open>
  A cause whose first meta message is the empty string: the error built from it has lost
  that message.
\<close>

theorem EstimateUserOperationGasError_drops_empty_meta_message:
  "metaMessages example_cause = Some ['''', ''AA21 did not pay prefund'']
   \<and> metaMessages
        (EstimateUserOperationGasError example_prettyPrint example_cause example_userOperation
           ''0x5FF137D4b0FDCD49DcA30c7CF57E578a026d2789'' None)
       = Some [''AA21 did not pay prefund'', '' '', ''Estimate Gas Arguments:'',
               ''sender;nonce;initCode;callData;callGasLimit;verificationGasLimit;preVerificationGas;maxFeePerGas;maxPriorityFeePerGas;paymasterAndData;signature;entryPoint;'']"
  by (simp add: EstimateUserOperationGasError_def example_cause_def example_prettyPrint_def)

subsection \<open>No normalisation of a user operation's signature\<close>

text \<open>
  C10. When the owner key signs the \<open>SafeOp\<close> structure with a hex string, that string is
  what \<open>signUserOperation\<close> returns, last byte included. \<open>signMessage\<close> and
  \<open>signTypedData\<close> return what \<open>adjustVInSignature\<close> makes of the owner's signature,
  with the methods \<open>eth_sign\<close> and \<open>eth_signTypedData\<close>.
\<close>

theorem signUserOperation_returns_raw_signature:
  "(signTypedData_owner (privateKeyAccount acct) (safeOpTypedData acct uo) = Inr d
      \<and> take 2 d = ''0x''
      \<longrightarrow> signUserOperation localeCompare acct uo = Inr d)
   \<and> (generateSafeMessageMessage lib m = Inr h
      \<and> hashTypedData lib (safeMessageTypedData acct h) = Inr messageHash
      \<and> signMessage_raw (privateKeyAccount acct) messageHash = Inr s
      \<longrightarrow> signMessage lib acct m = adjustVInSignature eth_sign s)
   \<and> (generateSafeMessageMessage lib (MessageTypedData td) = Inr h'
      \<and> signTypedData_owner (privateKeyAccount acct) (safeMessageTypedData acct h') = Inr s'
      \<longrightarrow> signTypedData lib acct td = adjustVInSignature eth_signTypedData s')"
proof (intro conjI impI)
  assume a: "signTypedData_owner (privateKeyAccount acct) (safeOpTypedData acct uo) = Inr d
      \<and> take 2 d = ''0x''"
  then have "''0x'' @ drop 2 d = d" using append_take_drop_id [of 2 d] by simp
  with a show "signUserOperation localeCompare acct uo = Inr d"
    by (simp add: signUserOperation_def sortAndConcat_single)
qed (simp_all add: signMessage_def signTypedData_def)

theorem signUserOperation_returns_raw_signature_witness:
  "signUserOperation example_localeCompare example_account example_userOperation
     = Inr ''0x5a5a00''
   \<and> signTypedData example_lib example_account
        (safeOpTypedData example_account example_userOperation) = Inr ''0x5a5a1b''
   \<and> signMessage example_lib example_account (MessageString ''hello'') = Inr ''0x5a5a20''"
proof -
  note t = signUserOperation_returns_raw_signature
             [of example_account example_userOperation "''0x5a5a00''" example_localeCompare
                 example_lib
                 "MessageString ''hello''" "''0x'' @ replicate 64 (CHR ''1'')"
                 "''0x'' @ replicate 64 (CHR ''2'')" "''0x5a5a01''"
                 "safeOpTypedData example_account example_userOperation"
                 "''0x'' @ replicate 64 (CHR ''2'')" "''0x5a5a00''"]
  have "adjustVInSignature eth_sign ''0x5a5a01'' = Inr ''0x5a5a20''"
    using adjustVInSignature_two_digits [of "CHR ''0''" 0 "CHR ''1''" 1 eth_sign "''0x5a5a''"]
    by (simp add: hexDigitValue_consts toString16_v)
  moreover have "adjustVInSignature eth_signTypedData ''0x5a5a00'' = Inr ''0x5a5a1b''"
    using adjustVInSignature_two_digits [of "CHR ''0''" 0 "CHR ''0''" 0 eth_signTypedData "''0x5a5a''"]
    by (simp add: hexDigitValue_consts toString16_v)
  ultimately show ?thesis
    using t
    by (simp add: example_account_def example_owner_def example_lib_def
        generateSafeMessageMessage_def)
qed

end
